theory Spec2Isabelle
  imports Main "HOL-Library.Sublist"
begin

section \<open>Moonwell token tags: a shallow embedding of \<^verbatim>\<open>src/main.mts\<close>\<close>

text \<open>
  The module resolves a subgraph URL for a chain, pages through the markets of
  the subgraph with a timestamp cursor, drops the markets whose token symbol is
  not presentable and reshapes the others into contract tags.

  Strings are \<^typ>\<open>string\<close>: one \<^typ>\<open>char\<close> stands for one UTF-16 code
  unit of the JavaScript string, in the range U+0000 .. U+00FF that the type
  has. Code units above U+00FF (among them the surrogates) are outside this
  model. Numbers that the code only counts or compares are \<^typ>\<open>int\<close> and
  \<^typ>\<open>nat\<close>. What is written to the console is not modelled: no function
  of the module reads it back.
\<close>

subsection \<open>Data model\<close>

record Token =
  id_tok :: string
  name :: string
  symbol :: string

record Market =
  outputToken :: Token
  createdTimestamp :: int

record GraphQLData =
  markets_opt :: "Market list option"

record GraphQLResponse =
  data :: "GraphQLData option"
  errors :: "string list option"

record ContractTag =
  Contract_Address :: string
  Public_Name_Tag :: string
  Project_Name :: string
  UI_Website_Link :: string
  Public_Note :: string

text \<open>
  What \<^verbatim>\<open>throw new Error(msg)\<close> raises. \<^verbatim>\<open>TypeError\<close> is what the
  runtime raises when a method is called on \<^verbatim>\<open>undefined\<close>.
\<close>

datatype error = Error string | TypeError string

text \<open>
  The value of \<^verbatim>\<open>Math.max\<close>: an integer, or \<^verbatim>\<open>-Infinity\<close> when there
  is nothing to compare.
\<close>

datatype number = NegInfinity | Finite int

text \<open>
  The transport. A response carries the status of the HTTP exchange and the
  body as \<^verbatim>\<open>response.json()\<close> yields it, typed as the module types it;
  a request that gets no response and a body that is not JSON are not
  modelled.
  The world holds the responses the remote end will give, one for each request
  in the order of the requests, and the requests made so far, each with its
  URL and the \<^verbatim>\<open>lastTimestamp\<close> variable of its body (the query text and
  the headers are constants).
\<close>

record HttpResponse =
  ok :: bool
  status :: nat
  json :: GraphQLResponse

type_synonym request = "string \<times> number"

record World =
  responses :: "nat \<Rightarrow> HttpResponse"
  sent :: "request list"

subsection \<open>The parts of the JavaScript library that the module calls\<close>

text \<open>
  White space and line terminators of ECMAScript that lie in the range of
  \<^typ>\<open>char\<close>: TAB, LF, VT, FF, CR, SP and NBSP.
\<close>

definition isWhiteSpace :: "char \<Rightarrow> bool" where
  "isWhiteSpace c = (c \<in> set [CHR 0x09, CHR 0x0A, CHR 0x0B, CHR 0x0C, CHR 0x0D, CHR 0x20, CHR 0xA0])"

text \<open>\<^verbatim>\<open>String.prototype.trim\<close>.\<close>

definition trim :: "string \<Rightarrow> string" where
  "trim s = rev (dropWhile isWhiteSpace (rev (dropWhile isWhiteSpace s)))"

text \<open>\<^verbatim>\<open>String.prototype.substring(start, end)\<close>: both ends are clamped to
  \<open>0 .. length\<close> and swapped when out of order.\<close>

definition substring :: "string \<Rightarrow> int \<Rightarrow> int \<Rightarrow> string" where
  "substring s indexStart indexEnd =
     (let n = int (length s);
          a = min (max indexStart 0) n;
          b = min (max indexEnd 0) n;
          lo = min a b;
          hi = max a b
      in take (nat (hi - lo)) (drop (nat lo) s))"

text \<open>\<^verbatim>\<open>Math.max\<close> of the spread of a list.\<close>

fun Math_max :: "int list \<Rightarrow> number" where
  "Math_max [] = NegInfinity"
| "Math_max (x # xs) = Finite (fold max xs x)"

text \<open>\<^verbatim>\<open>Error.prototype.toString\<close>, which a template literal applies to an
  error, and the decimal form of a status code.\<close>

fun toString :: "error \<Rightarrow> string" where
  "toString (Error msg) = (if msg = [] then ''Error'' else ''Error: '' @ msg)"
| "toString (TypeError msg) = (if msg = [] then ''TypeError'' else ''TypeError: '' @ msg)"

fun showNat :: "nat \<Rightarrow> string" where
  "showNat n =
     (if n < 10 then [''0123456789'' ! n]
      else showNat (n div 10) @ [''0123456789'' ! (n mod 10)])"

text \<open>\<^verbatim>\<open>Array.prototype.join\<close>.\<close>

fun join :: "string list \<Rightarrow> string \<Rightarrow> string" where
  "join [] sep = []"
| "join [x] sep = x"
| "join (x # y # ys) sep = x @ sep @ join (y # ys) sep"

text \<open>
  Property access on an object literal: an own property, or one inherited from
  \<^verbatim>\<open>Object.prototype\<close>, or \<^verbatim>\<open>undefined\<close>. Every inherited value is
  truthy and has no property \<^verbatim>\<open>decentralized\<close>.
\<close>

definition Object_prototype_keys :: "string list" where
  "Object_prototype_keys =
     [''constructor'', ''__defineGetter__'', ''__defineSetter__'', ''hasOwnProperty'',
      ''__lookupGetter__'', ''__lookupSetter__'', ''isPrototypeOf'', ''propertyIsEnumerable'',
      ''toString'', ''valueOf'', ''__proto__'', ''toLocaleString'']"

datatype property = Undefined | Inherited | Own string

definition getProperty :: "(string \<times> string) list \<Rightarrow> string \<Rightarrow> property" where
  "getProperty obj key =
     (case map_of obj key of
        Some v \<Rightarrow> Own v
      | None \<Rightarrow> if key \<in> set Object_prototype_keys then Inherited else Undefined)"

definition Object_keys :: "(string \<times> string) list \<Rightarrow> string list" where
  "Object_keys obj = map fst obj"

text \<open>
  \<^verbatim>\<open>isNaN(Number(s))\<close> for a string: the string, trimmed, is neither empty
  nor a \<^verbatim>\<open>StrNumericLiteral\<close> of ECMAScript (a signed decimal literal with
  optional fraction and exponent, \<^verbatim>\<open>Infinity\<close>, or an unsigned binary, octal
  or hexadecimal integer).
\<close>

definition isDecimalDigit :: "char \<Rightarrow> bool" where
  "isDecimalDigit c = (c \<in> set ''0123456789'')"

definition isExponentPart_opt :: "string \<Rightarrow> bool" where
  "isExponentPart_opt s =
     (case s of
        [] \<Rightarrow> True
      | c # r \<Rightarrow>
          c \<in> set ''eE'' \<and>
          (let ds = (case r of [] \<Rightarrow> [] | sg # r' \<Rightarrow> if sg \<in> set ''+-'' then r' else r)
           in ds \<noteq> [] \<and> list_all isDecimalDigit ds))"

definition isStrUnsignedDecimalLiteral :: "string \<Rightarrow> bool" where
  "isStrUnsignedDecimalLiteral s =
     (s = ''Infinity'' \<or>
      (let ip = takeWhile isDecimalDigit s; r = dropWhile isDecimalDigit s
       in case r of
            [] \<Rightarrow> ip \<noteq> []
          | c # r1 \<Rightarrow>
              if c = CHR ''.''
              then (let fp = takeWhile isDecimalDigit r1; r2 = dropWhile isDecimalDigit r1
                    in (ip \<noteq> [] \<or> fp \<noteq> []) \<and> isExponentPart_opt r2)
              else ip \<noteq> [] \<and> isExponentPart_opt r))"

definition isStrDecimalLiteral :: "string \<Rightarrow> bool" where
  "isStrDecimalLiteral s =
     (case s of
        [] \<Rightarrow> False
      | c # r \<Rightarrow> if c \<in> set ''+-'' then isStrUnsignedDecimalLiteral r
                 else isStrUnsignedDecimalLiteral s)"

definition isNonDecimalIntegerLiteral :: "string \<Rightarrow> bool" where
  "isNonDecimalIntegerLiteral s =
     (case s of
        z # p # ds \<Rightarrow>
          z = CHR ''0'' \<and> ds \<noteq> [] \<and>
          (if p \<in> set ''xX'' then list_all (\<lambda>c. c \<in> set ''0123456789abcdefABCDEF'') ds
           else if p \<in> set ''oO'' then list_all (\<lambda>c. c \<in> set ''01234567'') ds
           else if p \<in> set ''bB'' then list_all (\<lambda>c. c \<in> set ''01'') ds
           else False)
      | _ \<Rightarrow> False)"

definition isNaN_Number :: "string \<Rightarrow> bool" where
  "isNaN_Number s =
     (let t = trim s
      in \<not> (t = [] \<or> isNonDecimalIntegerLiteral t \<or> isStrDecimalLiteral t))"

text \<open>
  \<^verbatim>\<open>String.prototype.replace\<close> with a string pattern: the first occurrence
  of the pattern is replaced, and in the replacement text \<^verbatim>\<open>$$\<close> stands for
  a dollar sign, \<^verbatim>\<open>$&\<close> for the matched text, \<^verbatim>\<open>$`\<close> for the text
  before the match and \<^verbatim>\<open>$'\<close> for the text after it.
\<close>

fun find_first :: "string \<Rightarrow> string \<Rightarrow> (string \<times> string) option" where
  "find_first pat [] = (if pat = [] then Some ([], []) else None)"
| "find_first pat (c # cs) =
     (if prefix pat (c # cs) then Some ([], drop (length pat) (c # cs))
      else map_option (\<lambda>(preceding, following). (c # preceding, following)) (find_first pat cs))"

fun getSubstitution :: "string \<Rightarrow> string \<Rightarrow> string \<Rightarrow> string \<Rightarrow> string" where
  "getSubstitution matched preceding following [] = []"
| "getSubstitution matched preceding following [c] = [c]"
| "getSubstitution matched preceding following (c # d # r) =
     (if c = CHR ''$'' \<and> d = CHR ''$''
      then CHR ''$'' # getSubstitution matched preceding following r
      else if c = CHR ''$'' \<and> d = CHR ''&''
      then matched @ getSubstitution matched preceding following r
      else if c = CHR ''$'' \<and> d = CHR 0x60
      then preceding @ getSubstitution matched preceding following r
      else if c = CHR ''$'' \<and> d = CHR 0x27
      then following @ getSubstitution matched preceding following r
      else c # getSubstitution matched preceding following (d # r))"

definition replace :: "string \<Rightarrow> string \<Rightarrow> string \<Rightarrow> string" where
  "replace s pat replacement =
     (case find_first pat s of
        None \<Rightarrow> s
      | Some (preceding, following) \<Rightarrow>
          preceding @ getSubstitution pat preceding following replacement @ following)"

text \<open>
  \<^verbatim>\<open>encodeURIComponent\<close>: letters, digits and \<^verbatim>\<open>- _ . ! ~ * ' ( )\<close> stay;
  every other character is written in UTF-8 (one octet below U+0080, two from
  there to U+00FF) and each octet as \<^verbatim>\<open>%\<close> and two upper-case hexadecimal
  digits.
\<close>

definition uriUnreserved :: "char \<Rightarrow> bool" where
  "uriUnreserved c =
     (c \<in> set ''ABCDEFGHIJKLMNOPQRSTUVWXYZabcdefghijklmnopqrstuvwxyz0123456789'' \<or>
      c \<in> set [CHR ''-'', CHR ''_'', CHR ''.'', CHR ''!'', CHR ''~'', CHR ''*'', CHR 0x27,
                 CHR ''('', CHR '')''])"

definition hexDigit :: "nat \<Rightarrow> char" where
  "hexDigit n = ''0123456789ABCDEF'' ! (n mod 16)"

definition percentEscape :: "nat \<Rightarrow> string" where
  "percentEscape b = [CHR ''%'', hexDigit (b div 16), hexDigit b]"

definition utf8 :: "nat \<Rightarrow> nat list" where
  "utf8 cp = (if cp < 128 then [cp] else [192 + cp div 64, 128 + cp mod 64])"

definition encodeChar :: "char \<Rightarrow> string" where
  "encodeChar c =
     (if uriUnreserved c then [c] else concat (map percentEscape (utf8 (of_char c))))"

definition encodeURIComponent :: "string \<Rightarrow> string" where
  "encodeURIComponent s = concat (map encodeChar s)"

text \<open>\<^verbatim>\<open>fetch\<close>: the request is recorded and the next response of the remote
  end is delivered.\<close>

definition fetch :: "World \<Rightarrow> request \<Rightarrow> HttpResponse \<times> World" where
  "fetch w rq = (responses w (length (sent w)), w\<lparr>sent := sent w @ [rq]\<rparr>)"

subsection \<open>The subgraph table and the type guard\<close>

definition SUBGRAPH_URLS :: "(string \<times> string) list" where
  "SUBGRAPH_URLS =
     [(''1284'',
       ''https://gateway.thegraph.com/api/[api-key]/subgraphs/id/DQhrdUHwspQf3hSjDtyfS6uqq9YiKoLF3Ut3U9os2HK''),
      (''1285'',
       ''https://gateway.thegraph.com/api/[api-key]/subgraphs/id/8ayELti1UNCNCWuvwSwapjh4mvvCejeXsk4PmsWBmQ82''),
      (''8453'',
       ''https://gateway.thegraph.com/api/[api-key]/subgraphs/id/33ex1ExmYQtwGVwri1AP3oMFPGSce6YbocBP7fWbsBrg'')]"

text \<open>Both kinds of error are objects with a \<^verbatim>\<open>message\<close> string.\<close>

fun isError :: "error \<Rightarrow> bool" where
  "isError (Error msg) = True"
| "isError (TypeError msg) = True"

subsection \<open>Validation and truncation\<close>

text \<open>
  The regular expression \<^verbatim>\<open>/<[^>]*>/\<close>. \<open>match_close\<close> is the part after
  the opening bracket, \<^verbatim>\<open>[^>]*>\<close>, anchored at the head of its argument;
  \<open>test_html\<close> tries every start position from left to right, as \<^verbatim>\<open>test\<close> does.
\<close>

fun match_close :: "string \<Rightarrow> bool" where
  "match_close [] = False"
| "match_close (c # cs) = (if c = CHR ''>'' then True else match_close cs)"

fun test_html :: "string \<Rightarrow> bool" where
  "test_html [] = False"
| "test_html (c # cs) = ((c = CHR ''<'' \<and> match_close cs) \<or> test_html cs)"

definition containsInvalidValue :: "string \<Rightarrow> bool" where
  "containsInvalidValue text =
     (let containsHtml = test_html text;
          isEmpty = (trim text = [])
      in isEmpty \<or> containsHtml)"

definition truncateString :: "string \<Rightarrow> int \<Rightarrow> string" where
  "truncateString text maxLength =
     (if int (length text) > maxLength
      then substring text 0 (maxLength - 3) @ ''...''
      else text)"

subsection \<open>The query executor\<close>

text \<open>
  \<open>checkResponse\<close> is the body of \<^verbatim>\<open>fetchData\<close> from the status check on;
  a list of errors, even an empty one, is truthy.
\<close>

definition checkResponse :: "HttpResponse \<Rightarrow> error + Market list" where
  "checkResponse response =
     (if \<not> ok response then Inl (Error (''HTTP error: '' @ showNat (status response)))
      else
        let result = json response in
        if errors result \<noteq> None
        then Inl (Error ''GraphQL errors occurred: see logs for details.'')
        else
          (case data result of
             None \<Rightarrow> Inl (Error ''No markets data found.'')
           | Some d \<Rightarrow>
               (case markets_opt d of
                  None \<Rightarrow> Inl (Error ''No markets data found.'')
                | Some markets \<Rightarrow> Inr markets)))"

definition fetchData :: "World \<Rightarrow> string \<Rightarrow> number \<Rightarrow> (error + Market list) \<times> World" where
  "fetchData w subgraphUrl lastTimestamp =
     (let (response, w') = fetch w (subgraphUrl, lastTimestamp)
      in (checkResponse response, w'))"

subsection \<open>The endpoint resolver\<close>

text \<open>
  An inherited property passes the first test of the guard and is stopped by the
  second unless its name is numeric; then \<^verbatim>\<open>urls.decentralized\<close> is
  \<^verbatim>\<open>undefined\<close> and the call of \<^verbatim>\<open>replace\<close> on it raises.
\<close>

definition prepareUrl :: "string \<Rightarrow> string \<Rightarrow> error + string" where
  "prepareUrl chainId apiKey =
     (let urls = getProperty SUBGRAPH_URLS chainId
      in if urls = Undefined \<or> isNaN_Number chainId
         then
           (let supportedChainIds = join (Object_keys SUBGRAPH_URLS) '', ''
            in Inl (Error (''Unsupported or invalid Chain ID provided: '' @ chainId @
                           ''. Only the following values are accepted: '' @ supportedChainIds)))
         else
           (case urls of
              Own decentralized \<Rightarrow>
                Inr (replace decentralized ''[api-key]'' (encodeURIComponent apiKey))
            | _ \<Rightarrow> Inl (TypeError ''Cannot read properties of undefined (reading 'replace')'')))"

subsection \<open>The transformer\<close>

text \<open>
  \<open>sortMarket\<close> is the callback of \<^verbatim>\<open>forEach\<close>: it appends the market to
  \<^verbatim>\<open>validMarkets\<close> or a line to \<^verbatim>\<open>rejectedSymbols\<close>. \<open>toTag\<close> is the
  callback of \<^verbatim>\<open>map\<close>.
\<close>

definition sortMarket :: "Market \<Rightarrow> Market list \<times> string list \<Rightarrow> Market list \<times> string list" where
  "sortMarket market acc =
     (let (validMarkets, rejectedSymbols) = acc;
          symbolInvalid = containsInvalidValue (symbol (outputToken market))
      in if symbolInvalid
         then (validMarkets,
               rejectedSymbols @
                 [''Market: '' @ id_tok (outputToken market) @
                  '' rejected due to invalid symbol - Symbol: '' @ symbol (outputToken market)])
         else (validMarkets @ [market], rejectedSymbols))"

definition toTag :: "string \<Rightarrow> Market \<Rightarrow> ContractTag" where
  "toTag chainId market =
     (let maxNameLength = 44;
          truncatedNameText = truncateString (symbol (outputToken market)) maxNameLength
      in \<lparr>Contract_Address = ''eip155:'' @ chainId @ '':'' @ id_tok (outputToken market),
          Public_Name_Tag = truncatedNameText @ '' Token'',
          Project_Name = ''Moonwell'',
          UI_Website_Link = ''https://moonwell.fi/'',
          Public_Note = ''Moonwell's '' @ symbol (outputToken market) @ '' ('' @
                        name (outputToken market) @ '') token contract.''\<rparr>)"

definition transformMarketsToTags :: "string \<Rightarrow> Market list \<Rightarrow> ContractTag list" where
  "transformMarketsToTags chainId markets =
     (let (validMarkets, rejectedSymbols) = fold sortMarket markets ([], [])
      in map (toTag chainId) validMarkets)"

subsection \<open>The pagination loop\<close>

text \<open>
  The \<^verbatim>\<open>while\<close> loop of \<^verbatim>\<open>returnTags\<close> with its three variables. The
  remote end may answer with full pages for ever, so the loop is a partial
  function: \<open>None\<close> is a run that does not return. An error of
  \<^verbatim>\<open>fetchData\<close> leaves through the \<^verbatim>\<open>catch\<close> block, which raises a new
  error; \<^verbatim>\<open>prepareUrl\<close> is called outside the \<^verbatim>\<open>try\<close>, so its error
  leaves as it is.
\<close>

partial_function (option) returnTags_loop ::
  "string \<Rightarrow> string \<Rightarrow> ContractTag list \<Rightarrow> number \<Rightarrow> bool \<Rightarrow> World \<Rightarrow>
     ((error + ContractTag list) \<times> World) option" where
  "returnTags_loop chainId url allTags lastTimestamp isMore w =
     (if isMore then
        (case fetchData w url lastTimestamp of
           (Inl e, w') \<Rightarrow>
             Some (Inl (if isError e
                        then Error (''Failed fetching data: '' @ toString e)
                        else Error ''An unknown error occurred during fetch operation.''), w')
         | (Inr markets, w') \<Rightarrow>
             (let tags = transformMarketsToTags chainId markets;
                  allTags' = allTags @ tags;
                  isMore' = (length markets = 1000);
                  lastTimestamp' = (if isMore' then Math_max (map createdTimestamp markets)
                                    else lastTimestamp)
              in returnTags_loop chainId url allTags' lastTimestamp' isMore' w'))
      else Some (Inr allTags, w))"

definition returnTags ::
  "World \<Rightarrow> string \<Rightarrow> string \<Rightarrow> ((error + ContractTag list) \<times> World) option" where
  "returnTags w chainId apiKey =
     (case prepareUrl chainId apiKey of
        Inl e \<Rightarrow> Some (Inl e, w)
      | Inr url \<Rightarrow> returnTags_loop chainId url [] (Finite 0) True w)"

subsection \<open>Vocabulary of the statements\<close>

text \<open>
  None of the following is code of the module. \<open>fullPage\<close> says that a
  response passes the checks of \<^verbatim>\<open>fetchData\<close> with exactly 1000 markets,
  the one case in which the loop asks again. \<open>cursors\<close> lists the values of
  \<^verbatim>\<open>lastTimestamp\<close> that the loop sends when it starts at \<open>t\<close> and
  receives the pages \<open>ps\<close>. The others build sample inputs: a market, a
  successful response carrying a page, a response with a failure status, and a
  world whose remote end answers with the responses of a list, in order, and
  with one last response from then on.
\<close>

definition fullPage :: "HttpResponse \<Rightarrow> bool" where
  "fullPage r = (case checkResponse r of Inl e \<Rightarrow> False | Inr p \<Rightarrow> length p = 1000)"

definition cursors :: "number \<Rightarrow> Market list list \<Rightarrow> number list" where
  "cursors t ps = t # map (\<lambda>p. Math_max (map createdTimestamp p)) ps"

definition market :: "string \<Rightarrow> string \<Rightarrow> string \<Rightarrow> int \<Rightarrow> Market" where
  "market i n s t = \<lparr>outputToken = \<lparr>id_tok = i, name = n, symbol = s\<rparr>, createdTimestamp = t\<rparr>"

definition pageResponse :: "Market list \<Rightarrow> HttpResponse" where
  "pageResponse ms =
     \<lparr>ok = True, status = 200, json = \<lparr>data = Some \<lparr>markets_opt = Some ms\<rparr>, errors = None\<rparr>\<rparr>"

definition statusResponse :: "nat \<Rightarrow> HttpResponse" where
  "statusResponse st = \<lparr>ok = False, status = st, json = \<lparr>data = None, errors = None\<rparr>\<rparr>"

definition scripted :: "HttpResponse list \<Rightarrow> HttpResponse \<Rightarrow> World" where
  "scripted rs final = \<lparr>responses = (\<lambda>i. if i < length rs then rs ! i else final), sent = []\<rparr>"

section \<open>Properties\<close>

subsection \<open>Truncation\<close>

lemma substring_from_zero: "0 \<le> e \<Longrightarrow> substring s 0 e = take (nat e) s"
  by (simp add: substring_def Let_def min_def max_def)

text \<open>
  Claim C3. With the limit 44 a text of at most 44 characters comes back unchanged;
  a longer one comes back as exactly 44 characters, the first 41 of the text
  followed by three dots.
\<close>

theorem truncateString_44:
  "(length s \<le> 44 \<longrightarrow> truncateString s 44 = s) \<and>
   (length s > 44 \<longrightarrow>
      length (truncateString s 44) = 44 \<and>
      drop 41 (truncateString s 44) = ''...'' \<and>
      take 41 (truncateString s 44) = take 41 s)"
  by (simp add: truncateString_def substring_from_zero)

theorem truncateString_44_witness:
  "length ''ABC'' \<le> 44 \<and> truncateString ''ABC'' 44 = ''ABC'' \<and>
   length ''ABCDEFGHIJKLMNOPQRSTUVWXYZabcdefghijklmnopqrs'' > 44 \<and>
   truncateString ''ABCDEFGHIJKLMNOPQRSTUVWXYZabcdefghijklmnopqrs'' 44 =
     ''ABCDEFGHIJKLMNOPQRSTUVWXYZabcdefghijklmno...''"
  using truncateString_44 [of "''ABC''"]
    truncateString_44 [of "''ABCDEFGHIJKLMNOPQRSTUVWXYZabcdefghijklmnopqrs''"]
  by (simp add: truncateString_def substring_from_zero)

subsection \<open>Validation\<close>

lemma all_dropWhile: "(\<forall>x\<in>set (dropWhile P xs). P x) \<longleftrightarrow> (\<forall>x\<in>set xs. P x)"
  by (induction xs) auto

lemma trim_empty_iff: "trim s = [] \<longleftrightarrow> (\<forall>c\<in>set s. isWhiteSpace c)"
  by (simp add: trim_def dropWhile_eq_Nil_conv all_dropWhile)

lemma match_close_iff: "match_close s \<longleftrightarrow> CHR ''>'' \<in> set s"
  by (induction s) auto

lemma test_html_iff:
  "test_html s \<longleftrightarrow> (\<exists>a b d. s = a @ CHR ''<'' # b @ CHR ''>'' # d)"
proof (induction s)
  case Nil
  then show ?case by simp
next
  case (Cons c cs)
  show ?case
  proof
    assume "test_html (c # cs)"
    then consider "c = CHR ''<''" "CHR ''>'' \<in> set cs" | "test_html cs"
      by (auto simp: match_close_iff)
    then show "\<exists>a b d. c # cs = a @ CHR ''<'' # b @ CHR ''>'' # d"
    proof cases
      case 1
      from 1(2) obtain b d where "cs = b @ CHR ''>'' # d"
        by (auto simp: in_set_conv_decomp)
      with 1(1) have "c # cs = [] @ CHR ''<'' # b @ CHR ''>'' # d" by simp
      then show ?thesis by blast
    next
      case 2
      with Cons.IH obtain a b d where "cs = a @ CHR ''<'' # b @ CHR ''>'' # d" by blast
      then have "c # cs = (c # a) @ CHR ''<'' # b @ CHR ''>'' # d" by simp
      then show ?thesis by blast
    qed
  next
    assume "\<exists>a b d. c # cs = a @ CHR ''<'' # b @ CHR ''>'' # d"
    then obtain a b d where eq: "c # cs = a @ CHR ''<'' # b @ CHR ''>'' # d" by blast
    show "test_html (c # cs)"
    proof (cases a)
      case Nil
      with eq have "c = CHR ''<''" "cs = b @ CHR ''>'' # d" by simp_all
      then show ?thesis by (simp add: match_close_iff)
    next
      case (Cons a0 as)
      with eq have "cs = as @ CHR ''<'' # b @ CHR ''>'' # d" by simp
      with Cons.IH have "test_html cs" by blast
      then show ?thesis by simp
    qed
  qed
qed

lemma containsInvalidValue_iff:
  "containsInvalidValue s \<longleftrightarrow>
     (\<forall>c\<in>set s. isWhiteSpace c) \<or> (\<exists>a b d. s = a @ CHR ''<'' # b @ CHR ''>'' # d)"
  by (simp add: containsInvalidValue_def trim_empty_iff test_html_iff)

lemma fold_sortMarket_valid:
  "fst (fold sortMarket ms acc) =
     fst acc @ filter (\<lambda>m. \<not> containsInvalidValue (symbol (outputToken m))) ms"
  by (induction ms arbitrary: acc) (auto simp: sortMarket_def Let_def split: prod.splits)

lemma transformMarketsToTags_filter:
  "transformMarketsToTags chainId ms =
     map (toTag chainId) (filter (\<lambda>m. \<not> containsInvalidValue (symbol (outputToken m))) ms)"
  using fold_sortMarket_valid [of ms "([], [])"]
  by (cases "fold sortMarket ms ([], [])") (simp add: transformMarketsToTags_def)

lemma valid_samples:
  "\<not> containsInvalidValue ''mGLMR''" "\<not> containsInvalidValue ''mUSDC''"
  "\<not> containsInvalidValue ''mETH''" "containsInvalidValue ''<b>''"
  by (simp_all add: containsInvalidValue_def trim_def isWhiteSpace_def)

text \<open>
  Claim C4. For every list of markets the output holds one tag for each market
  that is kept, in order, and a market is dropped exactly when its symbol is
  empty, or consists of white space only, or contains a \<^verbatim>\<open><\<close> with a
  \<^verbatim>\<open>>\<close> somewhere after it.
\<close>

theorem transformMarketsToTags_excludes:
  "transformMarketsToTags chainId ms =
     map (toTag chainId)
       (filter (\<lambda>m. \<not> (symbol (outputToken m) = [] \<or>
                        (\<forall>c\<in>set (symbol (outputToken m)). isWhiteSpace c) \<or>
                        (\<exists>a b d. symbol (outputToken m) = a @ CHR ''<'' # b @ CHR ''>'' # d)))
          ms)"
proof -
  have "(\<lambda>m. \<not> containsInvalidValue (symbol (outputToken m))) =
        (\<lambda>m. \<not> (symbol (outputToken m) = [] \<or>
                  (\<forall>c\<in>set (symbol (outputToken m)). isWhiteSpace c) \<or>
                  (\<exists>a b d. symbol (outputToken m) = a @ CHR ''<'' # b @ CHR ''>'' # d)))"
    by (auto simp: containsInvalidValue_iff)
  then show ?thesis
    unfolding transformMarketsToTags_filter by (rule arg_cong)
qed

theorem transformMarketsToTags_excludes_witness:
  "transformMarketsToTags ''1284''
     [\<lparr>outputToken = \<lparr>id_tok = ''0xAAA'', name = ''Moonwell ABC'', symbol = ''ABC''\<rparr>, createdTimestamp = 1\<rparr>,
      \<lparr>outputToken = \<lparr>id_tok = ''0xBBB'', name = ''Empty'', symbol = ''''\<rparr>, createdTimestamp = 2\<rparr>,
      \<lparr>outputToken = \<lparr>id_tok = ''0xCCC'', name = ''Blank'', symbol = [CHR '' '', CHR 0x09, CHR 0xA0]\<rparr>, createdTimestamp = 3\<rparr>,
      \<lparr>outputToken = \<lparr>id_tok = ''0xDDD'', name = ''Markup'', symbol = ''a<b>c''\<rparr>, createdTimestamp = 4\<rparr>,
      \<lparr>outputToken = \<lparr>id_tok = ''0xEEE'', name = ''Order'', symbol = ''a>b<c''\<rparr>, createdTimestamp = 5\<rparr>]
   = [toTag ''1284'' \<lparr>outputToken = \<lparr>id_tok = ''0xAAA'', name = ''Moonwell ABC'', symbol = ''ABC''\<rparr>, createdTimestamp = 1\<rparr>,
      toTag ''1284'' \<lparr>outputToken = \<lparr>id_tok = ''0xEEE'', name = ''Order'', symbol = ''a>b<c''\<rparr>, createdTimestamp = 5\<rparr>]"
  using transformMarketsToTags_excludes [of "''1284''"
     "[\<lparr>outputToken = \<lparr>id_tok = ''0xAAA'', name = ''Moonwell ABC'', symbol = ''ABC''\<rparr>, createdTimestamp = 1\<rparr>,
      \<lparr>outputToken = \<lparr>id_tok = ''0xBBB'', name = ''Empty'', symbol = ''''\<rparr>, createdTimestamp = 2\<rparr>,
      \<lparr>outputToken = \<lparr>id_tok = ''0xCCC'', name = ''Blank'', symbol = [CHR '' '', CHR 0x09, CHR 0xA0]\<rparr>, createdTimestamp = 3\<rparr>,
      \<lparr>outputToken = \<lparr>id_tok = ''0xDDD'', name = ''Markup'', symbol = ''a<b>c''\<rparr>, createdTimestamp = 4\<rparr>,
      \<lparr>outputToken = \<lparr>id_tok = ''0xEEE'', name = ''Order'', symbol = ''a>b<c''\<rparr>, createdTimestamp = 5\<rparr>]"]
  by (simp add: test_html_iff [symmetric] isWhiteSpace_def)

text \<open>
  Claim C10. Whether a market is dropped is decided by its symbol alone: two
  markets with the same symbol and any identifiers, names and timestamps are
  both kept or both dropped, alone or at the same place of a list, and a market
  with a valid symbol is kept whatever its name and identifier contain.
\<close>

theorem validation_reads_symbol_only:
  "(transformMarketsToTags c
      [\<lparr>outputToken = \<lparr>id_tok = i1, name = n1, symbol = s\<rparr>, createdTimestamp = t1\<rparr>] = []) =
   (transformMarketsToTags c
      [\<lparr>outputToken = \<lparr>id_tok = i2, name = n2, symbol = s\<rparr>, createdTimestamp = t2\<rparr>] = []) \<and>
   length (transformMarketsToTags c
      (xs @ \<lparr>outputToken = \<lparr>id_tok = i1, name = n1, symbol = s\<rparr>, createdTimestamp = t1\<rparr> # ys)) =
   length (transformMarketsToTags c
      (xs @ \<lparr>outputToken = \<lparr>id_tok = i2, name = n2, symbol = s\<rparr>, createdTimestamp = t2\<rparr> # ys)) \<and>
   (\<not> containsInvalidValue s \<longrightarrow>
      transformMarketsToTags c
        [\<lparr>outputToken = \<lparr>id_tok = i1, name = n1, symbol = s\<rparr>, createdTimestamp = t1\<rparr>] =
      [toTag c \<lparr>outputToken = \<lparr>id_tok = i1, name = n1, symbol = s\<rparr>, createdTimestamp = t1\<rparr>])"
  by (simp add: transformMarketsToTags_filter)

theorem validation_reads_symbol_only_witness:
  "\<not> containsInvalidValue ''ABC'' \<and>
   containsInvalidValue ''<b>bold</b>'' \<and>
   transformMarketsToTags ''1284''
     [\<lparr>outputToken = \<lparr>id_tok = ''<i>0xAAA</i>'', name = ''<b>bold</b>'', symbol = ''ABC''\<rparr>,
       createdTimestamp = 7\<rparr>] =
   [\<lparr>Contract_Address = ''eip155:1284:<i>0xAAA</i>'',
     Public_Name_Tag = ''ABC Token'',
     Project_Name = ''Moonwell'',
     UI_Website_Link = ''https://moonwell.fi/'',
     Public_Note = ''Moonwell's ABC (<b>bold</b>) token contract.''\<rparr>]"
  using validation_reads_symbol_only [of "''1284''" "''<i>0xAAA</i>''" "''<b>bold</b>''" "''ABC''" 7]
  by (simp add: containsInvalidValue_def trim_def isWhiteSpace_def toTag_def truncateString_def)

subsection \<open>The query executor\<close>

lemma checkResponse_Inr_iff:
  "checkResponse r = Inr ms \<longleftrightarrow>
     ok r \<and> errors (json r) = None \<and> Option.bind (data (json r)) markets_opt = Some ms"
  by (auto simp: checkResponse_def Let_def split: option.splits)

lemma checkResponse_isl_iff:
  "isl (checkResponse r) \<longleftrightarrow>
     \<not> ok r \<or> errors (json r) \<noteq> None \<or> Option.bind (data (json r)) markets_opt = None"
  by (auto simp: checkResponse_def Let_def split: option.splits)

lemma fetchData_eq:
  "fetchData w url ts =
     (checkResponse (responses w (length (sent w))), w\<lparr>sent := sent w @ [(url, ts)]\<rparr>)"
  by (simp add: fetchData_def fetch_def)

lemma scripted_simps:
  "sent (scripted rs final) = []"
  "responses (scripted rs final) i = (if i < length rs then rs ! i else final)"
  by (simp_all add: scripted_def)

lemma checkResponse_simps:
  "checkResponse (pageResponse ms) = Inr ms"
  "checkResponse (statusResponse st) = Inl (Error (''HTTP error: '' @ showNat st))"
  by (simp_all add: checkResponse_def pageResponse_def statusResponse_def)

text \<open>
  Claim C2. As amended: \<^verbatim>\<open>fetchData\<close> fails exactly when the response has a
  non-success status, or its body has a list of errors (empty or not), or the
  data with the list of markets is absent; in every other case it returns the
  list of markets. The claim as written lets a response with an empty list of
  errors through; the counterexample below is such a response, and the code
  rejects it.
\<close>

theorem fetchData_fails_iff:
  "(isl (fst (fetchData w url ts)) \<longleftrightarrow>
      \<not> ok (responses w (length (sent w))) \<or>
      errors (json (responses w (length (sent w)))) \<noteq> None \<or>
      Option.bind (data (json (responses w (length (sent w))))) markets_opt = None) \<and>
   (fst (fetchData w url ts) = Inr ms \<longleftrightarrow>
      ok (responses w (length (sent w))) \<and>
      errors (json (responses w (length (sent w)))) = None \<and>
      Option.bind (data (json (responses w (length (sent w))))) markets_opt = Some ms)"
  by (simp add: fetchData_eq checkResponse_Inr_iff checkResponse_isl_iff)

theorem fetchData_fails_iff_witness:
  "fst (fetchData (scripted [] (statusResponse 500)) ''u'' (Finite 0)) =
     Inl (Error ''HTTP error: 500'') \<and>
   \<not> isl (fst (fetchData (scripted [] (pageResponse [])) ''u'' (Finite 0))) \<and>
   fst (fetchData (scripted [] (pageResponse [])) ''u'' (Finite 0)) = Inr []"
  using fetchData_fails_iff [of "scripted [] (statusResponse 500)" "''u''" "Finite 0" "[]"]
    fetchData_fails_iff [of "scripted [] (pageResponse [])" "''u''" "Finite 0" "[]"]
  by (simp add: scripted_def statusResponse_def pageResponse_def fetchData_eq checkResponse_def)

theorem fetchData_empty_errors_counterexample:
  "ok \<lparr>ok = True, status = 200,
       json = \<lparr>data = Some \<lparr>markets_opt = Some []\<rparr>, errors = Some []\<rparr>\<rparr> \<and>
   errors (json \<lparr>ok = True, status = 200,
       json = \<lparr>data = Some \<lparr>markets_opt = Some []\<rparr>, errors = Some []\<rparr>\<rparr>) = Some [] \<and>
   Option.bind (data (json \<lparr>ok = True, status = 200,
       json = \<lparr>data = Some \<lparr>markets_opt = Some []\<rparr>, errors = Some []\<rparr>\<rparr>)) markets_opt = Some [] \<and>
   fst (fetchData
          (scripted [] \<lparr>ok = True, status = 200,
                         json = \<lparr>data = Some \<lparr>markets_opt = Some []\<rparr>, errors = Some []\<rparr>\<rparr>)
          ''https://gateway.thegraph.com/api/k/subgraphs/id/x'' (Finite 0)) =
     Inl (Error ''GraphQL errors occurred: see logs for details.'')"
  by (simp add: fetchData_eq scripted_def checkResponse_def)

subsection \<open>The endpoint resolver\<close>

lemma hexDigit_in: "hexDigit n \<in> set ''0123456789ABCDEF''"
  unfolding hexDigit_def by (rule nth_mem) simp

lemma set_encodeChar:
  "x \<in> set (encodeChar c) \<Longrightarrow> uriUnreserved x \<or> x \<in> set ''%0123456789ABCDEF''"
  using hexDigit_in by (auto simp: encodeChar_def percentEscape_def utf8_def split: if_splits)

lemma set_encodeURIComponent:
  "x \<in> set (encodeURIComponent s) \<Longrightarrow> uriUnreserved x \<or> x \<in> set ''%0123456789ABCDEF''"
  by (auto simp: encodeURIComponent_def dest: set_encodeChar)

lemma no_dollar_encodeURIComponent: "CHR ''$'' \<notin> set (encodeURIComponent s)"
  using set_encodeURIComponent [of "CHR ''$''" s] by (auto simp: uriUnreserved_def)

lemma getSubstitution_plain:
  "CHR ''$'' \<notin> set r \<Longrightarrow> getSubstitution matched preceding following r = r"
  by (induction matched preceding following r rule: getSubstitution.induct) auto

lemma replace_at:
  "find_first pat s = Some (p, f) \<Longrightarrow> CHR ''$'' \<notin> set r \<Longrightarrow> replace s pat r = p @ r @ f"
  by (simp add: replace_def getSubstitution_plain)


lemma ids_not_NaN: "\<not> isNaN_Number ''1284''" "\<not> isNaN_Number ''1285''" "\<not> isNaN_Number ''8453''"
  by (simp_all add: isNaN_Number_def trim_def isWhiteSpace_def
      isNonDecimalIntegerLiteral_def isStrDecimalLiteral_def isStrUnsignedDecimalLiteral_def
      isDecimalDigit_def Let_def)

lemma prepareUrl_1284:
  "prepareUrl ''1284'' k =
     Inr (''https://gateway.thegraph.com/api/'' @ encodeURIComponent k @
          ''/subgraphs/id/DQhrdUHwspQf3hSjDtyfS6uqq9YiKoLF3Ut3U9os2HK'')"
proof -
  have "find_first ''[api-key]''
     ''https://gateway.thegraph.com/api/[api-key]/subgraphs/id/DQhrdUHwspQf3hSjDtyfS6uqq9YiKoLF3Ut3U9os2HK''
   = Some (''https://gateway.thegraph.com/api/'',
           ''/subgraphs/id/DQhrdUHwspQf3hSjDtyfS6uqq9YiKoLF3Ut3U9os2HK'')"
    by simp
  from replace_at [OF this no_dollar_encodeURIComponent] show ?thesis
    by (simp add: prepareUrl_def getProperty_def SUBGRAPH_URLS_def ids_not_NaN)
qed

lemma prepareUrl_1285:
  "prepareUrl ''1285'' k =
     Inr (''https://gateway.thegraph.com/api/'' @ encodeURIComponent k @
          ''/subgraphs/id/8ayELti1UNCNCWuvwSwapjh4mvvCejeXsk4PmsWBmQ82'')"
proof -
  have "find_first ''[api-key]''
     ''https://gateway.thegraph.com/api/[api-key]/subgraphs/id/8ayELti1UNCNCWuvwSwapjh4mvvCejeXsk4PmsWBmQ82''
   = Some (''https://gateway.thegraph.com/api/'',
           ''/subgraphs/id/8ayELti1UNCNCWuvwSwapjh4mvvCejeXsk4PmsWBmQ82'')"
    by simp
  from replace_at [OF this no_dollar_encodeURIComponent] show ?thesis
    by (simp add: prepareUrl_def getProperty_def SUBGRAPH_URLS_def ids_not_NaN)
qed

lemma prepareUrl_8453:
  "prepareUrl ''8453'' k =
     Inr (''https://gateway.thegraph.com/api/'' @ encodeURIComponent k @
          ''/subgraphs/id/33ex1ExmYQtwGVwri1AP3oMFPGSce6YbocBP7fWbsBrg'')"
proof -
  have "find_first ''[api-key]''
     ''https://gateway.thegraph.com/api/[api-key]/subgraphs/id/33ex1ExmYQtwGVwri1AP3oMFPGSce6YbocBP7fWbsBrg''
   = Some (''https://gateway.thegraph.com/api/'',
           ''/subgraphs/id/33ex1ExmYQtwGVwri1AP3oMFPGSce6YbocBP7fWbsBrg'')"
    by simp
  from replace_at [OF this no_dollar_encodeURIComponent] show ?thesis
    by (simp add: prepareUrl_def getProperty_def SUBGRAPH_URLS_def ids_not_NaN)
qed


lemma key_url:
  "prepareUrl ''1284'' ''key'' =
     Inr ''https://gateway.thegraph.com/api/key/subgraphs/id/DQhrdUHwspQf3hSjDtyfS6uqq9YiKoLF3Ut3U9os2HK''"
  by (simp add: prepareUrl_1284 encodeURIComponent_def encodeChar_def uriUnreserved_def)






lemma length_encodeURIComponent_ge: "length s \<le> length (encodeURIComponent s)"
proof (induction s)
  case Nil
  then show ?case by (simp add: encodeURIComponent_def)
next
  case (Cons c s)
  have "1 \<le> length (encodeChar c)"
    by (simp add: encodeChar_def utf8_def percentEscape_def)
  with Cons show ?case by (simp add: encodeURIComponent_def)
qed

lemma encodeURIComponent_changes:
  assumes "x \<in> set s" "\<not> uriUnreserved x"
  shows "length s < length (encodeURIComponent s)"
proof -
  from assms(1) obtain a b where s: "s = a @ x # b"
    by (auto simp: in_set_conv_decomp)
  have "3 \<le> length (encodeChar x)"
    using assms(2) by (simp add: encodeChar_def utf8_def percentEscape_def)
  moreover have "encodeURIComponent s =
      encodeURIComponent a @ encodeChar x @ encodeURIComponent b"
    by (simp add: s encodeURIComponent_def)
  ultimately show ?thesis
    using length_encodeURIComponent_ge [of a] length_encodeURIComponent_ge [of b]
    by (simp add: s)
qed

lemma encodeURIComponent_neq:
  assumes "\<exists>x\<in>set k. \<not> uriUnreserved x"
  shows "encodeURIComponent k \<noteq> k"
proof -
  from assms obtain x where "x \<in> set k" "\<not> uriUnreserved x" by blast
  then have "length k < length (encodeURIComponent k)" by (rule encodeURIComponent_changes)
  then show ?thesis by auto
qed

lemma prepareUrl_key_general:
  assumes "map_of SUBGRAPH_URLS c = Some (pre @ ''[api-key]'' @ post)"
    and "prepareUrl c k = Inr (pre @ encodeURIComponent k @ post)"
  shows "\<exists>pre post.
          map_of SUBGRAPH_URLS c = Some (pre @ ''[api-key]'' @ post) \<and>
          prepareUrl c k = Inr (pre @ encodeURIComponent k @ post) \<and>
          ((\<exists>x\<in>set k. \<not> uriUnreserved x) \<longrightarrow> prepareUrl c k \<noteq> Inr (pre @ k @ post))"
proof (intro exI conjI impI)
  show "map_of SUBGRAPH_URLS c = Some (pre @ ''[api-key]'' @ post)" by (rule assms(1))
  show "prepareUrl c k = Inr (pre @ encodeURIComponent k @ post)" by (rule assms(2))
  assume "\<exists>x\<in>set k. \<not> uriUnreserved x"
  then have "encodeURIComponent k \<noteq> k" by (rule encodeURIComponent_neq)
  then show "prepareUrl c k \<noteq> Inr (pre @ k @ post)"
    by (simp add: assms(2))
qed

lemma supported_cases:
  assumes "chainId \<in> set (Object_keys SUBGRAPH_URLS)"
  shows "chainId = ''1284'' \<or> chainId = ''1285'' \<or> chainId = ''8453''"
  using assms by (simp add: Object_keys_def SUBGRAPH_URLS_def)

text \<open>
  Claim C9. For every supported chain id and every key the URL is the template
  with the placeholder replaced by the percent-encoded key, which differs from
  the raw key as soon as the key has a character that is not unreserved. The
  encoded key consists of unreserved characters, \<^verbatim>\<open>%\<close> and hexadecimal
  digits; a \<^verbatim>\<open>/\<close> in the key becomes \<^verbatim>\<open>%2F\<close> and a \<^verbatim>\<open>&\<close>
  becomes \<^verbatim>\<open>%26\<close>.
\<close>

theorem prepareUrl_encodes_key:
  "(chainId \<in> set (Object_keys SUBGRAPH_URLS) \<longrightarrow>
      (\<exists>pre post.
          map_of SUBGRAPH_URLS chainId = Some (pre @ ''[api-key]'' @ post) \<and>
          prepareUrl chainId apiKey = Inr (pre @ encodeURIComponent apiKey @ post) \<and>
          ((\<exists>x\<in>set apiKey. \<not> uriUnreserved x) \<longrightarrow>
             prepareUrl chainId apiKey \<noteq> Inr (pre @ apiKey @ post)))) \<and>
   (\<forall>x\<in>set (encodeURIComponent apiKey). uriUnreserved x \<or> x \<in> set ''%0123456789ABCDEF'') \<and>
   encodeURIComponent (a @ ''/'' @ b) = encodeURIComponent a @ ''%2F'' @ encodeURIComponent b \<and>
   encodeURIComponent (a @ ''&'' @ b) = encodeURIComponent a @ ''%26'' @ encodeURIComponent b"
proof (intro conjI impI ballI)
  assume "chainId \<in> set (Object_keys SUBGRAPH_URLS)"
  then consider "chainId = ''1284''" | "chainId = ''1285''" | "chainId = ''8453''"
    using supported_cases by blast
  then show "\<exists>pre post.
          map_of SUBGRAPH_URLS chainId = Some (pre @ ''[api-key]'' @ post) \<and>
          prepareUrl chainId apiKey = Inr (pre @ encodeURIComponent apiKey @ post) \<and>
          ((\<exists>x\<in>set apiKey. \<not> uriUnreserved x) \<longrightarrow>
             prepareUrl chainId apiKey \<noteq> Inr (pre @ apiKey @ post))"
  proof cases
    case 1
    have "map_of SUBGRAPH_URLS ''1284'' = Some (''https://gateway.thegraph.com/api/'' @ ''[api-key]'' @
        ''/subgraphs/id/DQhrdUHwspQf3hSjDtyfS6uqq9YiKoLF3Ut3U9os2HK'')"
      by (simp add: SUBGRAPH_URLS_def)
    then show ?thesis
      unfolding 1 by (rule prepareUrl_key_general) (rule prepareUrl_1284)
  next
    case 2
    have "map_of SUBGRAPH_URLS ''1285'' = Some (''https://gateway.thegraph.com/api/'' @ ''[api-key]'' @
        ''/subgraphs/id/8ayELti1UNCNCWuvwSwapjh4mvvCejeXsk4PmsWBmQ82'')"
      by (simp add: SUBGRAPH_URLS_def)
    then show ?thesis
      unfolding 2 by (rule prepareUrl_key_general) (rule prepareUrl_1285)
  next
    case 3
    have "map_of SUBGRAPH_URLS ''8453'' = Some (''https://gateway.thegraph.com/api/'' @ ''[api-key]'' @
        ''/subgraphs/id/33ex1ExmYQtwGVwri1AP3oMFPGSce6YbocBP7fWbsBrg'')"
      by (simp add: SUBGRAPH_URLS_def)
    then show ?thesis
      unfolding 3 by (rule prepareUrl_key_general) (rule prepareUrl_8453)
  qed
next
  fix x assume "x \<in> set (encodeURIComponent apiKey)"
  then show "uriUnreserved x \<or> x \<in> set ''%0123456789ABCDEF''"
    by (rule set_encodeURIComponent)
next
  show "encodeURIComponent (a @ ''/'' @ b) = encodeURIComponent a @ ''%2F'' @ encodeURIComponent b"
    by (simp add: encodeURIComponent_def encodeChar_def uriUnreserved_def utf8_def
        percentEscape_def hexDigit_def)
next
  show "encodeURIComponent (a @ ''&'' @ b) = encodeURIComponent a @ ''%26'' @ encodeURIComponent b"
    by (simp add: encodeURIComponent_def encodeChar_def uriUnreserved_def utf8_def
        percentEscape_def hexDigit_def)
qed

theorem prepareUrl_encodes_key_witness:
  "''8453'' \<in> set (Object_keys SUBGRAPH_URLS) \<and>
   (\<exists>x\<in>set ''a/b&c''. \<not> uriUnreserved x) \<and>
   (\<exists>pre post.
       map_of SUBGRAPH_URLS ''8453'' = Some (pre @ ''[api-key]'' @ post) \<and>
       prepareUrl ''8453'' ''a/b&c'' = Inr (pre @ encodeURIComponent ''a/b&c'' @ post) \<and>
       prepareUrl ''8453'' ''a/b&c'' \<noteq> Inr (pre @ ''a/b&c'' @ post)) \<and>
   encodeURIComponent ''a/b&c'' = ''a%2Fb%26c''"
proof -
  have h: "''8453'' \<in> set (Object_keys SUBGRAPH_URLS)"
    by (simp add: Object_keys_def SUBGRAPH_URLS_def)
  have r: "\<exists>x\<in>set ''a/b&c''. \<not> uriUnreserved x"
    by (simp add: uriUnreserved_def)
  have e: "encodeURIComponent ''a/b&c'' = ''a%2Fb%26c''"
    by (simp add: encodeURIComponent_def encodeChar_def uriUnreserved_def utf8_def
        percentEscape_def hexDigit_def)
  from prepareUrl_encodes_key [of "''8453''" "''a/b&c''"] h r
  have "\<exists>pre post.
       map_of SUBGRAPH_URLS ''8453'' = Some (pre @ ''[api-key]'' @ post) \<and>
       prepareUrl ''8453'' ''a/b&c'' = Inr (pre @ encodeURIComponent ''a/b&c'' @ post) \<and>
       prepareUrl ''8453'' ''a/b&c'' \<noteq> Inr (pre @ ''a/b&c'' @ post)"
    by blast
  with h r e show ?thesis by blast
qed

subsection \<open>The pagination loop\<close>

lemma loop_stop: "returnTags_loop c url acc t False w = Some (Inr acc, w)"
  by (subst returnTags_loop.simps) simp

lemma loop_fail:
  assumes "checkResponse (responses w (length (sent w))) = Inl e"
  shows "returnTags_loop c url acc t True w =
     Some (Inl (Error (''Failed fetching data: '' @ toString e)),
           w\<lparr>sent := sent w @ [(url, t)]\<rparr>)"
proof -
  have "isError e" by (cases e) simp_all
  with assms show ?thesis
    by (subst returnTags_loop.simps) (simp add: fetchData_eq)
qed

lemma loop_short:
  assumes "checkResponse (responses w (length (sent w))) = Inr q" "length q \<noteq> 1000"
  shows "returnTags_loop c url acc t True w =
     Some (Inr (acc @ transformMarketsToTags c q), w\<lparr>sent := sent w @ [(url, t)]\<rparr>)"
  using assms
  by (subst returnTags_loop.simps) (simp add: fetchData_eq loop_stop)

lemma loop_full:
  assumes "checkResponse (responses w (length (sent w))) = Inr p" "length p = 1000"
  shows "returnTags_loop c url acc t True w =
     returnTags_loop c url (acc @ transformMarketsToTags c p)
       (Math_max (map createdTimestamp p)) True (w\<lparr>sent := sent w @ [(url, t)]\<rparr>)"
  using assms
  by (subst returnTags_loop.simps) (simp add: fetchData_eq)

lemma loop_pages:
  assumes "\<forall>i<length ps. checkResponse (responses w (length (sent w) + i)) = Inr (ps ! i) \<and>
                          length (ps ! i) = 1000"
  shows "returnTags_loop c url acc t True w =
     returnTags_loop c url (acc @ concat (map (transformMarketsToTags c) ps))
       (last (cursors t ps)) True
       (w\<lparr>sent := sent w @ map (Pair url) (butlast (cursors t ps))\<rparr>)"
  using assms
proof (induction ps arbitrary: acc t w)
  case Nil
  then show ?case by (simp add: cursors_def)
next
  case (Cons p ps)
  let ?w = "w\<lparr>sent := sent w @ [(url, t)]\<rparr>"
  let ?t = "Math_max (map createdTimestamp p)"
  from Cons.prems have p: "checkResponse (responses w (length (sent w))) = Inr p" "length p = 1000"
    by force+
  have rest: "\<forall>i<length ps. checkResponse (responses ?w (length (sent ?w) + i)) = Inr (ps ! i) \<and>
                          length (ps ! i) = 1000"
  proof (intro allI impI)
    fix i assume "i < length ps"
    then have "Suc i < length (p # ps)" by simp
    with Cons.prems have "checkResponse (responses w (length (sent w) + Suc i)) = Inr ((p # ps) ! Suc i) \<and>
                          length ((p # ps) ! Suc i) = 1000" by blast
    then show "checkResponse (responses ?w (length (sent ?w) + i)) = Inr (ps ! i) \<and>
                          length (ps ! i) = 1000" by simp
  qed
  have "returnTags_loop c url acc t True w =
        returnTags_loop c url (acc @ transformMarketsToTags c p) ?t True ?w"
    by (rule loop_full [OF p])
  also have "\<dots> = returnTags_loop c url
       ((acc @ transformMarketsToTags c p) @ concat (map (transformMarketsToTags c) ps))
       (last (cursors ?t ps)) True
       (?w\<lparr>sent := sent ?w @ map (Pair url) (butlast (cursors ?t ps))\<rparr>)"
    by (rule Cons.IH [OF rest])
  finally show ?case
    by (simp add: cursors_def)
qed

lemma length_cursors: "length (cursors t ps) = Suc (length ps)"
  by (simp add: cursors_def)

lemma cursors_snoc: "map (Pair url) (butlast (cursors t ps)) @ [(url, last (cursors t ps))] = map (Pair url) (cursors t ps)"
proof -
  have "cursors t ps \<noteq> []" by (simp add: cursors_def)
  then have "butlast (cursors t ps) @ [last (cursors t ps)] = cursors t ps" by simp
  then have "map (Pair url) (butlast (cursors t ps) @ [last (cursors t ps)]) = map (Pair url) (cursors t ps)"
    by (rule arg_cong)
  then show ?thesis by simp
qed

lemma loop_pages_short:
  assumes "\<forall>i<length ps. checkResponse (responses w (length (sent w) + i)) = Inr (ps ! i) \<and>
                          length (ps ! i) = 1000"
    and "checkResponse (responses w (length (sent w) + length ps)) = Inr q"
    and "length q \<noteq> 1000"
  shows "returnTags_loop c url acc t True w =
     Some (Inr (acc @ concat (map (transformMarketsToTags c) (ps @ [q]))),
           w\<lparr>sent := sent w @ map (Pair url) (cursors t ps)\<rparr>)"
proof -
  let ?w = "w\<lparr>sent := sent w @ map (Pair url) (butlast (cursors t ps))\<rparr>"
  have len: "length (sent ?w) = length (sent w) + length ps"
    by (simp add: length_cursors)
  have "returnTags_loop c url acc t True w =
     returnTags_loop c url (acc @ concat (map (transformMarketsToTags c) ps))
       (last (cursors t ps)) True ?w"
    by (rule loop_pages [OF assms(1)])
  also have "\<dots> = Some (Inr ((acc @ concat (map (transformMarketsToTags c) ps)) @
                              transformMarketsToTags c q),
           ?w\<lparr>sent := sent ?w @ [(url, last (cursors t ps))]\<rparr>)"
    by (rule loop_short) (simp_all add: length_cursors assms(2,3))
  finally show ?thesis
    by (simp add: cursors_snoc)
qed

lemma loop_pages_fail:
  assumes "\<forall>i<length ps. checkResponse (responses w (length (sent w) + i)) = Inr (ps ! i) \<and>
                          length (ps ! i) = 1000"
    and "checkResponse (responses w (length (sent w) + length ps)) = Inl e"
  shows "returnTags_loop c url acc t True w =
     Some (Inl (Error (''Failed fetching data: '' @ toString e)),
           w\<lparr>sent := sent w @ map (Pair url) (cursors t ps)\<rparr>)"
proof -
  let ?w = "w\<lparr>sent := sent w @ map (Pair url) (butlast (cursors t ps))\<rparr>"
  have len: "length (sent ?w) = length (sent w) + length ps"
    by (simp add: length_cursors)
  have "returnTags_loop c url acc t True w =
     returnTags_loop c url (acc @ concat (map (transformMarketsToTags c) ps))
       (last (cursors t ps)) True ?w"
    by (rule loop_pages [OF assms(1)])
  also have "\<dots> = Some (Inl (Error (''Failed fetching data: '' @ toString e)),
           ?w\<lparr>sent := sent ?w @ [(url, last (cursors t ps))]\<rparr>)"
    by (rule loop_fail) (simp add: length_cursors assms(2))
  finally show ?thesis
    by (simp add: cursors_snoc)
qed

lemma Math_max_Max: "xs \<noteq> [] \<Longrightarrow> Math_max xs = Finite (Max (set xs))"
  by (cases xs) (simp_all add: Max.set_eq_fold [symmetric])

lemma loop_returns_stops:
  assumes "returnTags_loop c url acc t go w = Some y"
  shows "go \<longrightarrow> (\<exists>k. \<not> fullPage (responses w (length (sent w) + k)))"
  using assms
proof (induction c url acc t go w y rule: returnTags_loop.raw_induct [rotated 1, consumes 1])
  case (1 loop c url acc t go w y)
  show ?case
  proof
    assume go
    show "\<exists>k. \<not> fullPage (responses w (length (sent w) + k))"
    proof (cases "fullPage (responses w (length (sent w)))")
      case False
      then have "\<not> fullPage (responses w (length (sent w) + 0))" by simp
      then show ?thesis by blast
    next
      case True
      then obtain p where p: "checkResponse (responses w (length (sent w))) = Inr p" "length p = 1000"
        by (auto simp: fullPage_def split: sum.splits)
      let ?w = "w\<lparr>sent := sent w @ [(url, t)]\<rparr>"
      from 1(2) \<open>go\<close> p
      have "loop c url (acc @ transformMarketsToTags c p) (Math_max (map createdTimestamp p)) True ?w = Some y"
        by (simp add: fetchData_eq)
      from 1(1) [OF this] obtain k where "\<not> fullPage (responses ?w (length (sent ?w) + k))"
        by auto
      then have "\<not> fullPage (responses w (length (sent w) + Suc k))" by simp
      then show ?thesis by blast
    qed
  qed
qed

lemma first_not_full:
  assumes "\<not> fullPage (responses w (n + k))"
  obtains ps where
    "\<forall>i<length ps. checkResponse (responses w (n + i)) = Inr (ps ! i) \<and> length (ps ! i) = 1000"
    "\<not> fullPage (responses w (n + length ps))"
proof -
  define j where "j = (LEAST i. \<not> fullPage (responses w (n + i)))"
  have notfull: "\<not> fullPage (responses w (n + j))"
    unfolding j_def using assms by (rule LeastI)
  have full: "fullPage (responses w (n + i))" if "i < j" for i
    using that not_less_Least unfolding j_def by blast
  define ps where "ps = map (\<lambda>i. projr (checkResponse (responses w (n + i)))) [0..<j]"
  have len: "length ps = j" by (simp add: ps_def)
  have "checkResponse (responses w (n + i)) = Inr (ps ! i) \<and> length (ps ! i) = 1000" if "i < length ps" for i
  proof -
    from that have "i < j" by (simp add: len)
    from full [OF this] show ?thesis
      using \<open>i < j\<close> by (auto simp: fullPage_def ps_def split: sum.splits)
  qed
  with notfull len that show thesis by blast
qed

lemma returnTags_loop_eq:
  "prepareUrl c k = Inr url \<Longrightarrow> returnTags w c k = returnTags_loop c url [] (Finite 0) True w"
  by (simp add: returnTags_def)

text \<open>
  Claim C1. When the next three responses carry pages of 1000, 1000 and 400
  markets, \<^verbatim>\<open>returnTags\<close> returns the tags of the first page, then those of
  the second, then those of the third; it sends exactly three requests, the
  first with cursor 0, the second with the greatest \<^verbatim>\<open>createdTimestamp\<close> of
  page 1 and the third with the greatest \<^verbatim>\<open>createdTimestamp\<close> of page 2.
\<close>

theorem returnTags_three_pages:
  assumes "prepareUrl chainId apiKey = Inr url"
    and "checkResponse (responses w (length (sent w))) = Inr p1" and "length p1 = 1000"
    and "checkResponse (responses w (length (sent w) + 1)) = Inr p2" and "length p2 = 1000"
    and "checkResponse (responses w (length (sent w) + 2)) = Inr p3" and "length p3 = 400"
  shows "returnTags w chainId apiKey =
     Some (Inr (transformMarketsToTags chainId p1 @ transformMarketsToTags chainId p2 @
                transformMarketsToTags chainId p3),
           w\<lparr>sent := sent w @
                  [(url, Finite 0),
                   (url, Finite (Max (createdTimestamp ` set p1))),
                   (url, Finite (Max (createdTimestamp ` set p2)))]\<rparr>)"
proof -
  have full: "\<forall>i<length [p1, p2].
      checkResponse (responses w (length (sent w) + i)) = Inr ([p1, p2] ! i) \<and>
      length ([p1, p2] ! i) = 1000"
    using assms(2-5) by (auto simp: less_Suc_eq)
  have short: "checkResponse (responses w (length (sent w) + length [p1, p2])) = Inr p3"
    "length p3 \<noteq> 1000"
    using assms(6,7) by simp_all
  have "p1 \<noteq> []" "p2 \<noteq> []" using assms(3,5) by auto
  then have "Math_max (map createdTimestamp p1) = Finite (Max (createdTimestamp ` set p1))"
    "Math_max (map createdTimestamp p2) = Finite (Max (createdTimestamp ` set p2))"
    by (simp_all add: Math_max_Max)
  with loop_pages_short [OF full short, of chainId url "[]" "Finite 0"] assms(1)
  show ?thesis
    by (simp add: returnTags_loop_eq cursors_def)
qed

theorem returnTags_three_pages_witness:
  "returnTags
     (scripted
        [pageResponse (replicate 1000 (market ''0xA'' ''Moonwell GLMR'' ''mGLMR'' 10)),
         pageResponse (market ''0xB'' ''Moonwell USDC'' ''mUSDC'' 30 #
                       replicate 999 (market ''0xC'' ''Markup'' ''<b>'' 20))]
        (pageResponse (replicate 400 (market ''0xD'' ''Moonwell ETH'' ''mETH'' 40))))
     ''1284'' ''key'' =
   Some (Inr (replicate 1000 (toTag ''1284'' (market ''0xA'' ''Moonwell GLMR'' ''mGLMR'' 10)) @
              toTag ''1284'' (market ''0xB'' ''Moonwell USDC'' ''mUSDC'' 30) #
              replicate 400 (toTag ''1284'' (market ''0xD'' ''Moonwell ETH'' ''mETH'' 40))),
         scripted
           [pageResponse (replicate 1000 (market ''0xA'' ''Moonwell GLMR'' ''mGLMR'' 10)),
            pageResponse (market ''0xB'' ''Moonwell USDC'' ''mUSDC'' 30 #
                          replicate 999 (market ''0xC'' ''Markup'' ''<b>'' 20))]
           (pageResponse (replicate 400 (market ''0xD'' ''Moonwell ETH'' ''mETH'' 40)))
         \<lparr>sent :=
            [(''https://gateway.thegraph.com/api/key/subgraphs/id/DQhrdUHwspQf3hSjDtyfS6uqq9YiKoLF3Ut3U9os2HK'', Finite 0),
             (''https://gateway.thegraph.com/api/key/subgraphs/id/DQhrdUHwspQf3hSjDtyfS6uqq9YiKoLF3Ut3U9os2HK'', Finite 10),
             (''https://gateway.thegraph.com/api/key/subgraphs/id/DQhrdUHwspQf3hSjDtyfS6uqq9YiKoLF3Ut3U9os2HK'', Finite 30)]\<rparr>)"
  (is "returnTags ?W _ _ = _")
proof -
  let ?p1 = "replicate 1000 (market ''0xA'' ''Moonwell GLMR'' ''mGLMR'' 10)"
  let ?p2 = "market ''0xB'' ''Moonwell USDC'' ''mUSDC'' 30 #
             replicate 999 (market ''0xC'' ''Markup'' ''<b>'' 20)"
  let ?p3 = "replicate 400 (market ''0xD'' ''Moonwell ETH'' ''mETH'' 40)"
  have 1: "checkResponse (responses ?W (length (sent ?W))) = Inr ?p1"
    by (simp add: scripted_simps checkResponse_simps)
  have 2: "checkResponse (responses ?W (length (sent ?W) + 1)) = Inr ?p2"
    by (simp add: scripted_simps checkResponse_simps)
  have 3: "checkResponse (responses ?W (length (sent ?W) + 2)) = Inr ?p3"
    by (simp add: scripted_simps checkResponse_simps)
  have l: "length ?p1 = 1000" "length ?p2 = 1000" "length ?p3 = 400"
    by simp_all
  from returnTags_three_pages [OF key_url 1 l(1) 2 l(2) 3 l(3)]
  show ?thesis
    by (simp add: scripted_simps transformMarketsToTags_filter market_def valid_samples)
qed

text \<open>
  Claim C6. For chain 1284 and one page of two markets, one with symbol
  \<^verbatim>\<open>ABC\<close> and identifier \<^verbatim>\<open>0xAAA\<close> and one with an empty symbol, in
  either order, \<^verbatim>\<open>returnTags\<close> sends one request and returns exactly one
  tag: address \<^verbatim>\<open>eip155:1284:0xAAA\<close>, name tag \<^verbatim>\<open>ABC Token\<close>, and a
  note with the symbol and the name of the token.
\<close>

theorem returnTags_example:
  assumes "responses w (length (sent w)) =
             \<lparr>ok = True, status = st,
              json = \<lparr>data = Some \<lparr>markets_opt = Some page\<rparr>, errors = None\<rparr>\<rparr>"
    and "page = [\<lparr>outputToken = \<lparr>id_tok = ''0xAAA'', name = n1, symbol = ''ABC''\<rparr>,
                   createdTimestamp = t1\<rparr>,
                 \<lparr>outputToken = \<lparr>id_tok = i2, name = n2, symbol = ''''\<rparr>,
                   createdTimestamp = t2\<rparr>] \<or>
         page = [\<lparr>outputToken = \<lparr>id_tok = i2, name = n2, symbol = ''''\<rparr>,
                   createdTimestamp = t2\<rparr>,
                 \<lparr>outputToken = \<lparr>id_tok = ''0xAAA'', name = n1, symbol = ''ABC''\<rparr>,
                   createdTimestamp = t1\<rparr>]"
  shows "returnTags w ''1284'' apiKey =
     Some (Inr [\<lparr>Contract_Address = ''eip155:1284:0xAAA'',
                 Public_Name_Tag = ''ABC Token'',
                 Project_Name = ''Moonwell'',
                 UI_Website_Link = ''https://moonwell.fi/'',
                 Public_Note = ''Moonwell's ABC ('' @ n1 @ '') token contract.''\<rparr>],
           w\<lparr>sent := sent w @
                  [(''https://gateway.thegraph.com/api/'' @ encodeURIComponent apiKey @
                    ''/subgraphs/id/DQhrdUHwspQf3hSjDtyfS6uqq9YiKoLF3Ut3U9os2HK'', Finite 0)]\<rparr>)"
proof -
  have ok: "checkResponse (responses w (length (sent w))) = Inr page"
    by (simp add: assms(1) checkResponse_def)
  have short: "length page \<noteq> 1000"
    using assms(2) by auto
  have bad: "containsInvalidValue ''''"
    by (simp add: containsInvalidValue_def trim_def)
  have good: "\<not> containsInvalidValue ''ABC''"
    by (simp add: containsInvalidValue_def trim_def isWhiteSpace_def)
  have "transformMarketsToTags ''1284'' page =
      [\<lparr>Contract_Address = ''eip155:1284:0xAAA'',
        Public_Name_Tag = ''ABC Token'',
        Project_Name = ''Moonwell'',
        UI_Website_Link = ''https://moonwell.fi/'',
        Public_Note = ''Moonwell's ABC ('' @ n1 @ '') token contract.''\<rparr>]"
    using assms(2) bad good
    by (auto simp: transformMarketsToTags_filter toTag_def truncateString_def)
  with loop_short [OF ok short, of "''1284''" _ "[]" "Finite 0"] show ?thesis
    by (simp add: returnTags_def prepareUrl_1284)
qed

theorem returnTags_example_witness:
  "returnTags
     (scripted [] (pageResponse [market ''0xAAA'' ''Moonwell ABC'' ''ABC'' 5,
                                 market ''0xBBB'' ''Nameless'' '''' 6]))
     ''1284'' ''key'' =
   Some (Inr [\<lparr>Contract_Address = ''eip155:1284:0xAAA'',
               Public_Name_Tag = ''ABC Token'',
               Project_Name = ''Moonwell'',
               UI_Website_Link = ''https://moonwell.fi/'',
               Public_Note = ''Moonwell's ABC (Moonwell ABC) token contract.''\<rparr>],
         scripted [] (pageResponse [market ''0xAAA'' ''Moonwell ABC'' ''ABC'' 5,
                                    market ''0xBBB'' ''Nameless'' '''' 6])
         \<lparr>sent :=
            [(''https://gateway.thegraph.com/api/key/subgraphs/id/DQhrdUHwspQf3hSjDtyfS6uqq9YiKoLF3Ut3U9os2HK'',
              Finite 0)]\<rparr>)"
  using returnTags_example
    [of "scripted [] (pageResponse [market ''0xAAA'' ''Moonwell ABC'' ''ABC'' 5,
                                    market ''0xBBB'' ''Nameless'' '''' 6])"
        200
        "[market ''0xAAA'' ''Moonwell ABC'' ''ABC'' 5, market ''0xBBB'' ''Nameless'' '''' 6]"
        "''Moonwell ABC''" 5 "''0xBBB''" "''Nameless''" 6 "''key''"]
  by (simp add: scripted_simps pageResponse_def market_def encodeURIComponent_def encodeChar_def
      uriUnreserved_def)

text \<open>
  Claim C7. When a fetch fails after any number of full pages,
  \<^verbatim>\<open>returnTags\<close> returns an error, which carries a message and no tags; and
  when \<^verbatim>\<open>returnTags\<close> returns a list, every request it sent was answered
  with a page and the list is the concatenation of the tags of all these
  pages.
\<close>

theorem returnTags_all_or_nothing:
  assumes "prepareUrl chainId apiKey = Inr url"
  shows "((\<forall>i<length ps. checkResponse (responses w (length (sent w) + i)) = Inr (ps ! i) \<and>
                         length (ps ! i) = 1000) \<and>
          checkResponse (responses w (length (sent w) + length ps)) = Inl e \<longrightarrow>
            (\<exists>w'. returnTags w chainId apiKey =
                    Some (Inl (Error (''Failed fetching data: '' @ toString e)), w'))) \<and>
         (returnTags w chainId apiKey = Some (Inr tags, w') \<longrightarrow>
            (\<exists>pages. length (sent w') = length (sent w) + length pages \<and>
                (\<forall>i<length pages.
                    checkResponse (responses w (length (sent w) + i)) = Inr (pages ! i)) \<and>
                tags = concat (map (transformMarketsToTags chainId) pages)))"
proof (intro conjI impI)
  assume "(\<forall>i<length ps. checkResponse (responses w (length (sent w) + i)) = Inr (ps ! i) \<and>
                         length (ps ! i) = 1000) \<and>
          checkResponse (responses w (length (sent w) + length ps)) = Inl e"
  then show "\<exists>w'. returnTags w chainId apiKey =
                    Some (Inl (Error (''Failed fetching data: '' @ toString e)), w')"
    using loop_pages_fail [of ps w e chainId url "[]" "Finite 0"] assms
    by (simp add: returnTags_loop_eq)
next
  assume ret: "returnTags w chainId apiKey = Some (Inr tags, w')"
  then have loop: "returnTags_loop chainId url [] (Finite 0) True w = Some (Inr tags, w')"
    using assms by (simp add: returnTags_loop_eq)
  from loop_returns_stops [OF this]
  obtain k where "\<not> fullPage (responses w (length (sent w) + k))" by blast
  then obtain ps where
    full: "\<forall>i<length ps. checkResponse (responses w (length (sent w) + i)) = Inr (ps ! i) \<and>
                          length (ps ! i) = 1000"
    and stop: "\<not> fullPage (responses w (length (sent w) + length ps))"
    by (rule first_not_full)
  show "\<exists>pages. length (sent w') = length (sent w) + length pages \<and>
                (\<forall>i<length pages.
                    checkResponse (responses w (length (sent w) + i)) = Inr (pages ! i)) \<and>
                tags = concat (map (transformMarketsToTags chainId) pages)"
  proof (cases "checkResponse (responses w (length (sent w) + length ps))")
    case (Inl e')
    from loop_pages_fail [OF full Inl, of chainId url "[]" "Finite 0"] loop
    show ?thesis by simp
  next
    case (Inr q)
    with stop have q: "length q \<noteq> 1000" by (simp add: fullPage_def)
    from loop_pages_short [OF full Inr q, of chainId url "[]" "Finite 0"] loop
    have tags: "tags = concat (map (transformMarketsToTags chainId) (ps @ [q]))"
      and w': "w' = w\<lparr>sent := sent w @ map (Pair url) (cursors (Finite 0) ps)\<rparr>"
      by simp_all
    have "\<forall>i<length (ps @ [q]).
            checkResponse (responses w (length (sent w) + i)) = Inr ((ps @ [q]) ! i)"
      using full Inr by (auto simp: nth_append less_Suc_eq)
    moreover have "length (sent w') = length (sent w) + length (ps @ [q])"
      by (simp add: w' length_cursors)
    ultimately show ?thesis using tags by blast
  qed
qed

theorem returnTags_all_or_nothing_witness:
  "(\<exists>w'. returnTags
            (scripted [pageResponse (replicate 1000 (market ''0xA'' ''Moonwell GLMR'' ''mGLMR'' 10))]
               (statusResponse 500))
            ''1284'' ''key'' =
          Some (Inl (Error ''Failed fetching data: Error: HTTP error: 500''), w')) \<and>
   (\<exists>tags w'.
       returnTags (scripted [] (pageResponse [market ''0xA'' ''Moonwell GLMR'' ''mGLMR'' 10]))
         ''1284'' ''key'' = Some (Inr tags, w') \<and>
       (\<exists>pages.
           length (sent w') = length pages \<and>
           (\<forall>i<length pages.
               checkResponse
                 (responses
                    (scripted [] (pageResponse [market ''0xA'' ''Moonwell GLMR'' ''mGLMR'' 10])) i) =
               Inr (pages ! i)) \<and>
           tags = concat (map (transformMarketsToTags ''1284'') pages)))"
proof -
  let ?W = "scripted [pageResponse (replicate 1000 (market ''0xA'' ''Moonwell GLMR'' ''mGLMR'' 10))]
               (statusResponse 500)"
  let ?V = "scripted [] (pageResponse [market ''0xA'' ''Moonwell GLMR'' ''mGLMR'' 10])"
  let ?ps = "[replicate 1000 (market ''0xA'' ''Moonwell GLMR'' ''mGLMR'' 10)]"
  let ?e = "Error ''HTTP error: 500''"
  have full: "\<forall>i<length ?ps. checkResponse (responses ?W (length (sent ?W) + i)) = Inr (?ps ! i) \<and>
                              length (?ps ! i) = 1000"
    by (simp add: scripted_simps checkResponse_simps)
  have fail: "checkResponse (responses ?W (length (sent ?W) + length ?ps)) = Inl ?e"
    by (simp add: scripted_simps checkResponse_simps)
  from returnTags_all_or_nothing [OF key_url, of ?ps ?W ?e] full fail
  have a: "\<exists>w'. returnTags ?W ''1284'' ''key'' =
                Some (Inl (Error (''Failed fetching data: '' @ toString ?e)), w')"
    by blast
  have "checkResponse (responses ?V (length (sent ?V))) = Inr [market ''0xA'' ''Moonwell GLMR'' ''mGLMR'' 10]"
    by (simp add: scripted_simps checkResponse_simps)
  from loop_short [OF this, of "''1284''" _ "[]" "Finite 0"]
  obtain tags w' where ret: "returnTags ?V ''1284'' ''key'' = Some (Inr tags, w')"
    by (simp add: returnTags_loop_eq [OF key_url])
  from returnTags_all_or_nothing [OF key_url, of _ ?V _ tags w'] ret
  have "\<exists>pages. length (sent w') = length (sent ?V) + length pages \<and>
         (\<forall>i<length pages.
             checkResponse (responses ?V (length (sent ?V) + i)) = Inr (pages ! i)) \<and>
         tags = concat (map (transformMarketsToTags ''1284'') pages)"
    by blast
  then have b: "\<exists>pages. length (sent w') = length pages \<and>
         (\<forall>i<length pages. checkResponse (responses ?V i) = Inr (pages ! i)) \<and>
         tags = concat (map (transformMarketsToTags ''1284'') pages)"
    by (simp add: scripted_simps(1))
  from a have "\<exists>w'. returnTags ?W ''1284'' ''key'' =
                Some (Inl (Error ''Failed fetching data: Error: HTTP error: 500''), w')"
    by simp
  with ret b show ?thesis by blast
qed

text \<open>
  Claim C8. For every sequence of pages that the loop reads to its end (full
  pages followed by one page of another size), the tags returned are the tags
  of the kept markets in the order of the markets within each page and of the
  pages among themselves.
\<close>

theorem returnTags_preserves_order:
  assumes "prepareUrl chainId apiKey = Inr url"
    and "\<forall>i<length ps. checkResponse (responses w (length (sent w) + i)) = Inr (ps ! i) \<and>
                          length (ps ! i) = 1000"
    and "checkResponse (responses w (length (sent w) + length ps)) = Inr q"
    and "length q \<noteq> 1000"
  shows "\<exists>w'. returnTags w chainId apiKey =
     Some (Inr (map (toTag chainId)
                  (filter (\<lambda>m. \<not> containsInvalidValue (symbol (outputToken m)))
                     (concat (ps @ [q])))), w')"
proof -
  have "concat (map (transformMarketsToTags chainId) pages) =
        map (toTag chainId)
          (filter (\<lambda>m. \<not> containsInvalidValue (symbol (outputToken m))) (concat pages))"
    for pages
    by (induction pages) (simp_all add: transformMarketsToTags_filter)
  with loop_pages_short [OF assms(2-4), of chainId url "[]" "Finite 0"] assms(1)
  show ?thesis
    by (simp add: returnTags_loop_eq transformMarketsToTags_filter)
qed

theorem returnTags_preserves_order_witness:
  "\<exists>w'. returnTags
           (scripted
              [pageResponse (market ''0xB'' ''Moonwell USDC'' ''mUSDC'' 30 #
                             replicate 999 (market ''0xC'' ''Markup'' ''<b>'' 20))]
              (pageResponse [market ''0xD'' ''Moonwell ETH'' ''mETH'' 40,
                             market ''0xA'' ''Moonwell GLMR'' ''mGLMR'' 10]))
           ''1284'' ''key'' =
         Some (Inr [toTag ''1284'' (market ''0xB'' ''Moonwell USDC'' ''mUSDC'' 30),
                    toTag ''1284'' (market ''0xD'' ''Moonwell ETH'' ''mETH'' 40),
                    toTag ''1284'' (market ''0xA'' ''Moonwell GLMR'' ''mGLMR'' 10)], w')"
  (is "\<exists>w'. returnTags ?W _ _ = _ w'")
proof -
  let ?ps = "[market ''0xB'' ''Moonwell USDC'' ''mUSDC'' 30 #
              replicate 999 (market ''0xC'' ''Markup'' ''<b>'' 20)]"
  let ?q = "[market ''0xD'' ''Moonwell ETH'' ''mETH'' 40,
             market ''0xA'' ''Moonwell GLMR'' ''mGLMR'' 10]"
  have full: "\<forall>i<length ?ps. checkResponse (responses ?W (length (sent ?W) + i)) = Inr (?ps ! i) \<and>
                              length (?ps ! i) = 1000"
    by (simp add: scripted_simps checkResponse_simps)
  have short: "checkResponse (responses ?W (length (sent ?W) + length ?ps)) = Inr ?q"
    "length ?q \<noteq> 1000"
    by (simp_all add: scripted_simps checkResponse_simps)
  from returnTags_preserves_order [OF key_url full short]
  show ?thesis
    by (simp add: market_def valid_samples)
qed

end
